theory Spec2Isabelle
  imports Main "HOL-Library.Word"
begin

section \<open>The Logger facade of src/shared/Logging/Logger.h\<close>

text \<open>
  Logger.h is a header of inline member functions. Each of them is a thin wrapper round one
  of five functions declared in logging.h: \<open>log_enabled\<close>, \<open>log_message_v\<close>,
  \<open>log_printf_v\<close>, \<open>log_write\<close> and \<open>log_dump\<close>. The header logging.h is not
  part of the sources at hand, so the five functions are a parameter of the model (a record
  of state transformers over the backend's own state), and the constants and types of
  logging.h that Logger.h mentions are parameters as well.

  Pointers that may be null are options (\<open>None\<close> is \<open>nullptr\<close>). A character
  buffer is the list of characters found from the pointer to the end of the array it points
  into; a C string therefore contains its terminating NUL.
\<close>

subsection \<open>What logging.h declares\<close>

text \<open>
  Modelled from the spec: the enumeration LogLevel of logging.h, which is missing from the
  sources. The spec lists Trace, Debug, Info, Warn and Error in that order, and an off level.
  Logger.h itself names LOG\_LEVEL\_TRACE, LOG\_LEVEL\_INFO, LOG\_LEVEL\_WARN and LOG\_LEVEL\_ERROR.
\<close>

datatype LogLevel =
    LOG_LEVEL_TRACE
  | LOG_LEVEL_DEBUG
  | LOG_LEVEL_INFO
  | LOG_LEVEL_WARN
  | LOG_LEVEL_ERROR
  | LOG_LEVEL_NONE

text \<open>
  Modelled from the spec: the structure LogAttributes of logging.h, which is missing from the
  sources. The spec gives its first two fields, a declared-size tag and a flag bitset; these
  are the two fields Logger.h assigns, \<open>size\<close> (here \<open>size_field\<close>) and \<open>flags\<close>.
\<close>

record LogAttributes =
  size_field :: nat
  flags :: nat

text \<open>
  The macros of logging.h that Logger.h uses, and the size of the structure, taken as
  parameters: \<open>DEBUG_LEVEL\<close> (the level of \<open>debug\<close>), \<open>LOG_MODULE_CATEGORY\<close> (the
  default argument of the constructor) and \<open>sizeof(LogAttributes)\<close>.
\<close>

record logging_h =
  DEBUG_LEVEL :: LogLevel
  LOG_MODULE_CATEGORY :: "string option"
  sizeof_LogAttributes :: nat

text \<open>The arguments behind \<open>...\<close>, as \<open>va_start\<close> collects them.\<close>

datatype va_arg = VInt int | VStr string

type_synonym va_list = "va_arg list"

type_synonym byte = "8 word"

text \<open>
  Modelled from the spec: the signatures of the five backend functions of logging.h, which is
  missing from the sources. Section 6 of the spec gives them as
  enabled(level, category), emit\_message(level, category, attributes, format, args),
  emit\_printf(level, category, attributes, format, args),
  emit\_write(level, category, data, size, attributes) and
  emit\_dump(level, category, data, size, flags, attributes). Logger.h passes one more
  pointer to \<open>log_enabled\<close> and to \<open>log_message_v\<close>, always \<open>nullptr\<close>; it is the
  \<open>unit option\<close> below. Each function works on the backend's state \<open>'s\<close>.
\<close>

record 's backend =
  log_enabled :: "LogLevel \<Rightarrow> string option \<Rightarrow> unit option \<Rightarrow> 's \<Rightarrow> bool \<times> 's"
  log_message_v :: "LogLevel \<Rightarrow> string option \<Rightarrow> LogAttributes option \<Rightarrow> unit option
                     \<Rightarrow> string option \<Rightarrow> va_list \<Rightarrow> 's \<Rightarrow> 's"
  log_printf_v :: "LogLevel \<Rightarrow> string option \<Rightarrow> LogAttributes option
                     \<Rightarrow> string option \<Rightarrow> va_list \<Rightarrow> 's \<Rightarrow> 's"
  log_write :: "LogLevel \<Rightarrow> string option \<Rightarrow> string option \<Rightarrow> nat
                     \<Rightarrow> LogAttributes option \<Rightarrow> 's \<Rightarrow> 's"
  log_dump :: "LogLevel \<Rightarrow> string option \<Rightarrow> byte list option \<Rightarrow> nat \<Rightarrow> nat
                     \<Rightarrow> LogAttributes option \<Rightarrow> 's \<Rightarrow> 's"

subsection \<open>The class Logger\<close>

text \<open>The only data member, \<open>const char *const name_\<close> (a name cannot end in an underscore here).\<close>

record Logger =
  name_member :: "string option"

text \<open>\<open>static const LogLevel DEFAULT_LEVEL = LOG_LEVEL_INFO\<close>\<close>

definition DEFAULT_LEVEL :: LogLevel where
  "DEFAULT_LEVEL = LOG_LEVEL_INFO"

text \<open>
  \<open>explicit Logger(const char *name = LOG_MODULE_CATEGORY)\<close>. The argument is optional:
  \<open>None\<close> is the call without an argument, \<open>Some p\<close> the call with the pointer \<open>p\<close>.
\<close>

definition Logger_ctor :: "logging_h \<Rightarrow> string option option \<Rightarrow> Logger" where
  "Logger_ctor h arg =
     (let name = (case arg of None \<Rightarrow> LOG_MODULE_CATEGORY h | Some p \<Rightarrow> p)
      in \<lparr> name_member = name \<rparr>)"

text \<open>The private \<open>log(LogLevel level, const char *fmt, va_list args)\<close>.\<close>

definition log_va ::
  "'s backend \<Rightarrow> logging_h \<Rightarrow> Logger \<Rightarrow> LogLevel \<Rightarrow> string option \<Rightarrow> va_list \<Rightarrow> 's \<Rightarrow> 's" where
  "log_va b h this level fmt args =
     (let attr = \<lparr> size_field = sizeof_LogAttributes h, flags = 0 \<rparr>
      in log_message_v b level (name_member this) (Some attr) None fmt args)"

definition trace ::
  "'s backend \<Rightarrow> logging_h \<Rightarrow> Logger \<Rightarrow> string option \<Rightarrow> va_list \<Rightarrow> 's \<Rightarrow> 's" where
  "trace b h this fmt args = log_va b h this LOG_LEVEL_TRACE fmt args"

definition debug ::
  "'s backend \<Rightarrow> logging_h \<Rightarrow> Logger \<Rightarrow> string option \<Rightarrow> va_list \<Rightarrow> 's \<Rightarrow> 's" where
  "debug b h this fmt args = log_va b h this (DEBUG_LEVEL h) fmt args"

definition info ::
  "'s backend \<Rightarrow> logging_h \<Rightarrow> Logger \<Rightarrow> string option \<Rightarrow> va_list \<Rightarrow> 's \<Rightarrow> 's" where
  "info b h this fmt args = log_va b h this LOG_LEVEL_INFO fmt args"

definition warn ::
  "'s backend \<Rightarrow> logging_h \<Rightarrow> Logger \<Rightarrow> string option \<Rightarrow> va_list \<Rightarrow> 's \<Rightarrow> 's" where
  "warn b h this fmt args = log_va b h this LOG_LEVEL_WARN fmt args"

definition error ::
  "'s backend \<Rightarrow> logging_h \<Rightarrow> Logger \<Rightarrow> string option \<Rightarrow> va_list \<Rightarrow> 's \<Rightarrow> 's" where
  "error b h this fmt args = log_va b h this LOG_LEVEL_ERROR fmt args"

text \<open>\<open>log(const char *fmt, ...)\<close> and \<open>log(LogLevel level, const char *fmt, ...)\<close>.\<close>

definition log ::
  "'s backend \<Rightarrow> logging_h \<Rightarrow> Logger \<Rightarrow> string option \<Rightarrow> va_list \<Rightarrow> 's \<Rightarrow> 's" where
  "log b h this fmt args = log_va b h this DEFAULT_LEVEL fmt args"

definition log_level ::
  "'s backend \<Rightarrow> logging_h \<Rightarrow> Logger \<Rightarrow> LogLevel \<Rightarrow> string option \<Rightarrow> va_list \<Rightarrow> 's \<Rightarrow> 's" where
  "log_level b h this level fmt args = log_va b h this level fmt args"

text \<open>The two \<open>operator()\<close>, aliases of the two \<open>log\<close>.\<close>

definition operator_call ::
  "'s backend \<Rightarrow> logging_h \<Rightarrow> Logger \<Rightarrow> string option \<Rightarrow> va_list \<Rightarrow> 's \<Rightarrow> 's" where
  "operator_call b h this fmt args = log_va b h this DEFAULT_LEVEL fmt args"

definition operator_call_level ::
  "'s backend \<Rightarrow> logging_h \<Rightarrow> Logger \<Rightarrow> LogLevel \<Rightarrow> string option \<Rightarrow> va_list \<Rightarrow> 's \<Rightarrow> 's" where
  "operator_call_level b h this level fmt args = log_va b h this level fmt args"

text \<open>\<open>printf(const char *fmt, ...)\<close> and \<open>printf(LogLevel level, const char *fmt, ...)\<close>.\<close>

definition printf ::
  "'s backend \<Rightarrow> Logger \<Rightarrow> string option \<Rightarrow> va_list \<Rightarrow> 's \<Rightarrow> 's" where
  "printf b this fmt args = log_printf_v b DEFAULT_LEVEL (name_member this) None fmt args"

definition printf_level ::
  "'s backend \<Rightarrow> Logger \<Rightarrow> LogLevel \<Rightarrow> string option \<Rightarrow> va_list \<Rightarrow> 's \<Rightarrow> 's" where
  "printf_level b this level fmt args = log_printf_v b level (name_member this) None fmt args"

text \<open>
  \<open>write(LogLevel level, const char *data, size_t size)\<close> and \<open>write(data, size)\<close>;
  the second is \<open>write_default\<close> here, the plain name being a keyword.
\<close>

definition write_level ::
  "'s backend \<Rightarrow> Logger \<Rightarrow> LogLevel \<Rightarrow> string option \<Rightarrow> nat \<Rightarrow> 's \<Rightarrow> 's" where
  "write_level b this level data sz s =
     (if data \<noteq> None then log_write b level (name_member this) data sz None s else s)"

definition write_default ::
  "'s backend \<Rightarrow> Logger \<Rightarrow> string option \<Rightarrow> nat \<Rightarrow> 's \<Rightarrow> 's" where
  "write_default b this data sz = write_level b this DEFAULT_LEVEL data sz"

text \<open>
  The C library's \<open>strlen\<close>: the number of characters before the first NUL. The result
  \<open>None\<close> is undefined behaviour: the pointer is null, or the scan leaves the array
  without meeting a NUL.
\<close>

fun nul_index :: "string \<Rightarrow> nat option" where
  "nul_index [] = None"
| "nul_index (c # cs) =
     (if c = CHR 0x00 then Some 0 else map_option Suc (nul_index cs))"

definition strlen :: "string option \<Rightarrow> nat option" where
  "strlen str = (case str of None \<Rightarrow> None | Some cs \<Rightarrow> nul_index cs)"

text \<open>
  \<open>print(LogLevel level, const char *str)\<close> and \<open>print(str)\<close>. The argument
  \<open>strlen(str)\<close> is evaluated before \<open>write\<close> is entered; where it is undefined,
  so is the call (\<open>None\<close>).
\<close>

definition print_level ::
  "'s backend \<Rightarrow> Logger \<Rightarrow> LogLevel \<Rightarrow> string option \<Rightarrow> 's \<Rightarrow> 's option" where
  "print_level b this level str s =
     (case strlen str of
        None \<Rightarrow> None
      | Some n \<Rightarrow> Some (write_level b this level str n s))"

definition print ::
  "'s backend \<Rightarrow> Logger \<Rightarrow> string option \<Rightarrow> 's \<Rightarrow> 's option" where
  "print b this str = print_level b this DEFAULT_LEVEL str"

text \<open>\<open>dump(LogLevel level, const void *data, size_t size)\<close> and \<open>dump(data, size)\<close>.\<close>

definition dump_level ::
  "'s backend \<Rightarrow> Logger \<Rightarrow> LogLevel \<Rightarrow> byte list option \<Rightarrow> nat \<Rightarrow> 's \<Rightarrow> 's" where
  "dump_level b this level data sz s =
     (if data \<noteq> None then log_dump b level (name_member this) data sz 0 None s else s)"

definition dump ::
  "'s backend \<Rightarrow> Logger \<Rightarrow> byte list option \<Rightarrow> nat \<Rightarrow> 's \<Rightarrow> 's" where
  "dump b this data sz = dump_level b this DEFAULT_LEVEL data sz"

text \<open>The enablement predicates.\<close>

definition isLevelEnabled ::
  "'s backend \<Rightarrow> Logger \<Rightarrow> LogLevel \<Rightarrow> 's \<Rightarrow> bool \<times> 's" where
  "isLevelEnabled b this level = log_enabled b level (name_member this) None"

definition isTraceEnabled :: "'s backend \<Rightarrow> Logger \<Rightarrow> 's \<Rightarrow> bool \<times> 's" where
  "isTraceEnabled b this = isLevelEnabled b this LOG_LEVEL_TRACE"

definition isInfoEnabled :: "'s backend \<Rightarrow> Logger \<Rightarrow> 's \<Rightarrow> bool \<times> 's" where
  "isInfoEnabled b this = isLevelEnabled b this LOG_LEVEL_INFO"

definition isWarnEnabled :: "'s backend \<Rightarrow> Logger \<Rightarrow> 's \<Rightarrow> bool \<times> 's" where
  "isWarnEnabled b this = isLevelEnabled b this LOG_LEVEL_WARN"

definition isErrorEnabled :: "'s backend \<Rightarrow> Logger \<Rightarrow> 's \<Rightarrow> bool \<times> 's" where
  "isErrorEnabled b this = isLevelEnabled b this LOG_LEVEL_ERROR"

text \<open>\<open>const char* name() const\<close>\<close>

definition name :: "Logger \<Rightarrow> string option" where
  "name this = name_member this"

subsection \<open>A backend that records its calls\<close>

text \<open>
  To observe which backend functions a member function calls, with which arguments and in
  which order, the facade is run on a backend whose state is the list of the calls it has
  received, oldest first. Its \<open>log_enabled\<close> answers from an enablement policy, a
  parameter; the other four functions only record the call.
\<close>

datatype backend_call =
    Log_enabled LogLevel "string option" "unit option"
  | Log_message_v LogLevel "string option" "LogAttributes option" "unit option"
      "string option" va_list
  | Log_printf_v LogLevel "string option" "LogAttributes option" "string option" va_list
  | Log_write LogLevel "string option" "string option" nat "LogAttributes option"
  | Log_dump LogLevel "string option" "byte list option" nat nat "LogAttributes option"

definition recorder :: "(LogLevel \<Rightarrow> string option \<Rightarrow> bool) \<Rightarrow> backend_call list backend" where
  "recorder policy =
     \<lparr> log_enabled = (\<lambda>level category reserved s.
          (policy level category, s @ [Log_enabled level category reserved])),
       log_message_v = (\<lambda>level category attr reserved fmt args s.
          s @ [Log_message_v level category attr reserved fmt args]),
       log_printf_v = (\<lambda>level category attr fmt args s.
          s @ [Log_printf_v level category attr fmt args]),
       log_write = (\<lambda>level category data sz attr s.
          s @ [Log_write level category data sz attr]),
       log_dump = (\<lambda>level category data sz flgs attr s.
          s @ [Log_dump level category data sz flgs attr]) \<rparr>"

text \<open>The attributes pointer of a recorded call; \<open>log_enabled\<close> takes none.\<close>

fun call_attributes :: "backend_call \<Rightarrow> LogAttributes option" where
  "call_attributes (Log_enabled level category reserved) = None"
| "call_attributes (Log_message_v level category attr reserved fmt args) = attr"
| "call_attributes (Log_printf_v level category attr fmt args) = attr"
| "call_attributes (Log_write level category data sz attr) = attr"
| "call_attributes (Log_dump level category data sz flgs attr) = attr"

text \<open>The pointer to a string literal: its characters and the terminating NUL.\<close>

definition c_str :: "string \<Rightarrow> string option" where
  "c_str lit = Some (lit @ [CHR 0x00])"

text \<open>
  The setting of the scenario in section 8 of the spec: a logger of category "net", and a
  policy that enables Warn and Error only.
\<close>

definition warn_and_above :: "LogLevel \<Rightarrow> string option \<Rightarrow> bool" where
  "warn_and_above level category = (level = LOG_LEVEL_WARN \<or> level = LOG_LEVEL_ERROR)"

definition example_h :: logging_h where
  "example_h = \<lparr> DEBUG_LEVEL = LOG_LEVEL_DEBUG, LOG_MODULE_CATEGORY = c_str ''app'',
                 sizeof_LogAttributes = 16 \<rparr>"

definition net_logger :: Logger where
  "net_logger = Logger_ctor example_h (Some (c_str ''net''))"

subsection \<open>The hex encoding of a dump\<close>

text \<open>
  The encoding is the work of \<open>log_dump\<close>, which is declared in logging.h and is missing
  from the sources; Logger.h only calls it. Section 4.4 of the spec describes it: each byte
  becomes two uppercase hex digits, in order, with no separators.
\<close>

text \<open>Modelled from the spec: the uppercase hex digit of a value below 16, inside \<open>log_dump\<close>.\<close>

definition hex_digit :: "nat \<Rightarrow> char" where
  "hex_digit n = ''0123456789ABCDEF'' ! (n mod 16)"

text \<open>
  Modelled from the spec: the two digits \<open>log_dump\<close> writes for one byte, the high half
  first.
\<close>

definition hex_byte :: "byte \<Rightarrow> string" where
  "hex_byte x = [hex_digit (unat x div 16), hex_digit (unat x mod 16)]"

text \<open>Modelled from the spec: the loop of \<open>log_dump\<close> over the bytes, in order.\<close>

fun hex_encode :: "byte list \<Rightarrow> string" where
  "hex_encode [] = []"
| "hex_encode (x # xs) = hex_byte x @ hex_encode xs"

text \<open>
  Modelled from the spec: the text \<open>log_dump\<close> produces from the pointer and the size it
  is given. Reading through the null pointer, or more bytes than the buffer holds, is
  undefined (\<open>None\<close>).
\<close>

definition log_dump_text :: "byte list option \<Rightarrow> nat \<Rightarrow> string option" where
  "log_dump_text data sz =
     (case data of
        None \<Rightarrow> None
      | Some bs \<Rightarrow> if sz \<le> length bs then Some (hex_encode (take sz bs)) else None)"

text \<open>The text of a recorded call of \<open>log_dump\<close>.\<close>

fun dump_text :: "backend_call \<Rightarrow> string option" where
  "dump_text (Log_dump level category data sz flgs attr) = log_dump_text data sz"
| "dump_text _ = None"

text \<open>The value of a hex digit, to read an encoded pair back.\<close>

definition hex_value :: "char \<Rightarrow> nat" where
  "hex_value c =
     (if of_char c < (65::nat) then of_char c - 48 else of_char c - 55)"

section \<open>Properties\<close>

subsection \<open>The hex encoding\<close>

lemma hex_value_digit_all: "list_all (\<lambda>n. hex_value (hex_digit n) = n) [0..<16]"
  by code_simp

lemma hex_value_digit: "n < 16 \<Longrightarrow> hex_value (hex_digit n) = n"
  using hex_value_digit_all unfolding list_all_iff by simp

lemma hex_digit_upper_all: "list_all (\<lambda>n. hex_digit n \<in> set ''0123456789ABCDEF'') [0..<16]"
  by code_simp

lemma hex_digit_upper: "hex_digit n \<in> set ''0123456789ABCDEF''"
proof -
  have "hex_digit n = hex_digit (n mod 16)" by (simp add: hex_digit_def)
  moreover have "n mod 16 \<in> set [0..<16]" by simp
  ultimately show ?thesis
    using hex_digit_upper_all unfolding list_all_iff by metis
qed

lemma length_hex_encode: "length (hex_encode bs) = 2 * length bs"
  by (induction bs) (simp_all add: hex_byte_def)

lemma hex_encode_pair:
  "i < length bs \<Longrightarrow> take 2 (drop (2 * i) (hex_encode bs)) = hex_byte (bs ! i)"
proof (induction bs arbitrary: i)
  case Nil
  then show ?case by simp
next
  case (Cons b bs)
  show ?case
  proof (cases i)
    case 0
    then show ?thesis by (simp add: hex_byte_def)
  next
    case (Suc j)
    with Cons.prems have "j < length bs" by simp
    from Cons.IH [OF this] Suc show ?thesis by (simp add: hex_byte_def)
  qed
qed

lemma hex_byte_value:
  "hex_value (hex_byte x ! 0) * 16 + hex_value (hex_byte x ! 1) = unat x"
proof -
  have "unat x < 256" using unsigned_less [of x] by simp
  then have "unat x div 16 < 16" by simp
  moreover have "unat x mod 16 < 16" by simp
  ultimately show ?thesis
    by (simp add: hex_byte_def hex_value_digit)
qed

lemma hex_byte_upper: "set (hex_byte x) \<subseteq> set ''0123456789ABCDEF''"
  using hex_digit_upper [of "unat x div 16"] hex_digit_upper [of "unat x mod 16"]
  unfolding hex_byte_def by simp

subsection \<open>The length of a C string\<close>

lemma nul_index_Some:
  "nul_index cs = Some n \<Longrightarrow> n < length cs \<and> cs ! n = CHR 0x00 \<and> CHR 0x00 \<notin> set (take n cs)"
proof (induction cs arbitrary: n)
  case Nil
  then show ?case by simp
next
  case (Cons c cs)
  show ?case
  proof (cases "c = CHR 0x00")
    case True
    with Cons.prems show ?thesis by simp
  next
    case False
    with Cons.prems obtain m where m: "nul_index cs = Some m" and n: "n = Suc m"
      by auto
    from Cons.IH [OF m] n False show ?thesis by simp
  qed
qed

subsection \<open>Hex dump\<close>

text \<open>
  Claim C2. For a pointer that is not null, into an array \<open>A\<close>, and every size \<open>N\<close> up
  to the length of \<open>A\<close> (the whole array, a prefix of it, or \<open>N = 0\<close>),
  \<open>dump(level, data, N)\<close> calls \<open>log_dump\<close>, once, with the pointer, \<open>N\<close>, flags 0
  and no attributes; the call is never skipped, also when \<open>N = 0\<close>. The text of that call
  is the encoding of the first \<open>N\<close> bytes: it has \<open>2 * N\<close> characters, and its \<open>i\<close>-th
  pair is the encoding of \<open>A ! i\<close>, two characters out of \<open>0123456789ABCDEF\<close> whose
  values, read as a two-digit hex number, give the byte back.
\<close>

theorem dump_hex_encoding:
  assumes "n \<le> length A"
  shows "dump_level (recorder policy) this level (Some A) n s
     = s @ [Log_dump level (name_member this) (Some A) n 0 None]
   \<and> (\<exists>t. dump_text (last (dump_level (recorder policy) this level (Some A) n s)) = Some t
          \<and> t = hex_encode (take n A)
          \<and> length t = 2 * n
          \<and> (\<forall>i<n. take 2 (drop (2 * i) t) = hex_byte (A ! i)
                \<and> set (hex_byte (A ! i)) \<subseteq> set ''0123456789ABCDEF''
                \<and> hex_value (t ! (2 * i)) * 16 + hex_value (t ! (2 * i + 1)) = unat (A ! i)))"
proof -
  let ?B = "take n A"
  from assms have lenB: "length ?B = n"
    by simp
  have call: "dump_level (recorder policy) this level (Some A) n s
     = s @ [Log_dump level (name_member this) (Some A) n 0 None]"
    by (simp add: dump_level_def recorder_def)
  have enc: "dump_text (last (dump_level (recorder policy) this level (Some A) n s))
     = Some (hex_encode ?B)"
    using assms by (simp add: call log_dump_text_def)
  have len: "length (hex_encode ?B) = 2 * n"
    using lenB by (simp add: length_hex_encode)
  have pair: "take 2 (drop (2 * i) (hex_encode ?B)) = hex_byte (A ! i)" if "i < n" for i
  proof -
    from that lenB have "i < length ?B" by simp
    then have "take 2 (drop (2 * i) (hex_encode ?B)) = hex_byte (?B ! i)"
      by (rule hex_encode_pair)
    with that show ?thesis by simp
  qed
  have val: "hex_value (hex_encode ?B ! (2 * i)) * 16 + hex_value (hex_encode ?B ! (2 * i + 1))
      = unat (A ! i)" if "i < n" for i
  proof -
    have bound: "2 * i + 1 < length (hex_encode ?B)"
      using that len by simp
    have "hex_byte (A ! i) ! 0 = take 2 (drop (2 * i) (hex_encode ?B)) ! 0"
      by (simp only: pair [OF that])
    also have "\<dots> = hex_encode ?B ! (2 * i)"
      using bound by simp
    finally have d0: "hex_encode ?B ! (2 * i) = hex_byte (A ! i) ! 0" by simp
    have "hex_byte (A ! i) ! 1 = take 2 (drop (2 * i) (hex_encode ?B)) ! 1"
      by (simp only: pair [OF that])
    also have "\<dots> = hex_encode ?B ! (2 * i + 1)"
      using bound by simp
    finally have d1: "hex_encode ?B ! (2 * i + 1) = hex_byte (A ! i) ! 1" by simp
    show ?thesis
      unfolding d0 d1 by (rule hex_byte_value)
  qed
  have all: "\<forall>i<n. take 2 (drop (2 * i) (hex_encode ?B)) = hex_byte (A ! i)
                \<and> set (hex_byte (A ! i)) \<subseteq> set ''0123456789ABCDEF''
                \<and> hex_value (hex_encode ?B ! (2 * i)) * 16
                    + hex_value (hex_encode ?B ! (2 * i + 1)) = unat (A ! i)"
    using pair val hex_byte_upper by blast
  from call enc len all show ?thesis
    by blast
qed

theorem dump_hex_encoding_witness:
  "(2::nat) \<le> length [0x0A, 0xFF, 0x41 :: byte]
   \<and> dump_level (recorder warn_and_above) net_logger LOG_LEVEL_WARN
         (Some [0x0A, 0xFF, 0x41]) 2 []
       = [Log_dump LOG_LEVEL_WARN (name_member net_logger) (Some [0x0A, 0xFF, 0x41]) 2 0 None]
   \<and> dump_text (last (dump_level (recorder warn_and_above) net_logger LOG_LEVEL_WARN
         (Some [0x0A, 0xFF, 0x41]) 2 [])) = Some ''0AFF''
   \<and> (0::nat) \<le> length [0x41 :: byte]
   \<and> dump_level (recorder warn_and_above) net_logger LOG_LEVEL_WARN (Some [0x41]) 0 []
       = [Log_dump LOG_LEVEL_WARN (name_member net_logger) (Some [0x41]) 0 0 None]
   \<and> dump_text (last (dump_level (recorder warn_and_above) net_logger LOG_LEVEL_WARN
         (Some [0x41]) 0 [])) = Some ''''"
proof -
  let ?A = "[0x0A, 0xFF, 0x41] :: byte list"
  let ?C = "[0x41] :: byte list"
  have le2: "(2::nat) \<le> length ?A" and le0: "(0::nat) \<le> length ?C"
    by simp_all
  have "take 2 ?A = [0x0A, 0xFF]"
    by (simp add: take_Cons')
  then have e2: "hex_encode (take 2 ?A) = ''0AFF''"
    by (simp add: hex_byte_def hex_digit_def)
  have e0: "hex_encode (take 0 ?C) = ''''"
    by simp
  from dump_hex_encoding [OF le2, of warn_and_above net_logger LOG_LEVEL_WARN "[]"]
  have a: "dump_level (recorder warn_and_above) net_logger LOG_LEVEL_WARN (Some ?A) 2 []
       = [] @ [Log_dump LOG_LEVEL_WARN (name_member net_logger) (Some ?A) 2 0 None]"
    and b: "dump_text (last (dump_level (recorder warn_and_above) net_logger LOG_LEVEL_WARN
         (Some ?A) 2 [])) = Some (hex_encode (take 2 ?A))"
    by blast+
  from dump_hex_encoding [OF le0, of warn_and_above net_logger LOG_LEVEL_WARN "[]"]
  have c: "dump_level (recorder warn_and_above) net_logger LOG_LEVEL_WARN (Some ?C) 0 []
       = [] @ [Log_dump LOG_LEVEL_WARN (name_member net_logger) (Some ?C) 0 0 None]"
    and d: "dump_text (last (dump_level (recorder warn_and_above) net_logger LOG_LEVEL_WARN
         (Some ?C) 0 [])) = Some (hex_encode (take 0 ?C))"
    by blast+
  from a have a': "dump_level (recorder warn_and_above) net_logger LOG_LEVEL_WARN (Some ?A) 2 []
       = [Log_dump LOG_LEVEL_WARN (name_member net_logger) (Some ?A) 2 0 None]"
    by (simp only: append_Nil)
  from c have c': "dump_level (recorder warn_and_above) net_logger LOG_LEVEL_WARN (Some ?C) 0 []
       = [Log_dump LOG_LEVEL_WARN (name_member net_logger) (Some ?C) 0 0 None]"
    by (simp only: append_Nil)
  from b e2 have b': "dump_text (last (dump_level (recorder warn_and_above) net_logger
         LOG_LEVEL_WARN (Some ?A) 2 [])) = Some ''0AFF''"
    by (simp only:)
  from d e0 have d': "dump_text (last (dump_level (recorder warn_and_above) net_logger
         LOG_LEVEL_WARN (Some ?C) 0 [])) = Some ''''"
    by (simp only:)
  from le2 a' b' le0 c' d' show ?thesis
    by blast
qed

subsection \<open>Null buffers\<close>

text \<open>
  Claim C3. \<open>write\<close> and \<open>dump\<close>, with or without a level, leave the state of every
  backend as it was when the buffer is the null pointer, whatever the size: no backend
  function is called. The functions return nothing, so no error is reported either.
\<close>

theorem null_buffer_is_no_op:
  "write_level b this level None sz s = s
   \<and> dump_level b this level None sz s = s
   \<and> write_default b this None sz s = s
   \<and> dump b this None sz s = s"
  by (simp add: write_level_def dump_level_def write_default_def dump_def)

subsection \<open>Fixed levels\<close>

text \<open>
  Claim C4. On every backend, \<open>trace\<close>, \<open>info\<close>, \<open>warn\<close>, \<open>error\<close> and the
  \<open>log\<close> without a level do what \<open>log(level, fmt, ...)\<close> does at the levels
  LOG\_LEVEL\_TRACE, LOG\_LEVEL\_INFO, LOG\_LEVEL\_WARN, LOG\_LEVEL\_ERROR and DEFAULT\_LEVEL, with the
  same format and arguments; and the call that \<open>log(level, fmt, ...)\<close> makes carries
  that level.
\<close>

theorem default_level_methods:
  "trace b h this fmt args = log_level b h this LOG_LEVEL_TRACE fmt args
   \<and> info b h this fmt args = log_level b h this LOG_LEVEL_INFO fmt args
   \<and> warn b h this fmt args = log_level b h this LOG_LEVEL_WARN fmt args
   \<and> error b h this fmt args = log_level b h this LOG_LEVEL_ERROR fmt args
   \<and> log b h this fmt args = log_level b h this DEFAULT_LEVEL fmt args
   \<and> log_level (recorder policy) h this level fmt args s
       = s @ [Log_message_v level (name_member this)
                (Some \<lparr> size_field = sizeof_LogAttributes h, flags = 0 \<rparr>) None fmt args]"
  by (simp add: trace_def info_def warn_def error_def log_def log_level_def log_va_def
      recorder_def)

text \<open>
  Claim C5. DEFAULT\_LEVEL is LOG\_LEVEL\_INFO, and the \<open>log\<close>, \<open>printf\<close>, \<open>print\<close>,
  \<open>write\<close> and \<open>dump\<close> that take no level do what their siblings do at level
  LOG\_LEVEL\_INFO, for every logger, hence every category. The calls they make carry
  LOG\_LEVEL\_INFO.
\<close>

theorem level_less_calls_use_info:
  "DEFAULT_LEVEL = LOG_LEVEL_INFO
   \<and> log b h this fmt args = log_level b h this LOG_LEVEL_INFO fmt args
   \<and> printf b this fmt args = printf_level b this LOG_LEVEL_INFO fmt args
   \<and> print b this str s = print_level b this LOG_LEVEL_INFO str s
   \<and> write_default b this data sz s = write_level b this LOG_LEVEL_INFO data sz s
   \<and> dump b this bytes sz s = dump_level b this LOG_LEVEL_INFO bytes sz s
   \<and> log (recorder policy) h this fmt args calls
       = calls @ [Log_message_v LOG_LEVEL_INFO (name_member this)
                (Some \<lparr> size_field = sizeof_LogAttributes h, flags = 0 \<rparr>) None fmt args]
   \<and> printf (recorder policy) this fmt args calls
       = calls @ [Log_printf_v LOG_LEVEL_INFO (name_member this) None fmt args]
   \<and> print (recorder policy) this (Some cs) calls
       = map_option (\<lambda>n. calls @ [Log_write LOG_LEVEL_INFO (name_member this) (Some cs) n None])
           (strlen (Some cs))
   \<and> write_default (recorder policy) this (Some cs) sz calls
       = calls @ [Log_write LOG_LEVEL_INFO (name_member this) (Some cs) sz None]
   \<and> dump (recorder policy) this (Some bs) sz calls
       = calls @ [Log_dump LOG_LEVEL_INFO (name_member this) (Some bs) sz 0 None]"
  by (simp add: DEFAULT_LEVEL_def log_def log_level_def log_va_def printf_def printf_level_def
      print_def print_level_def write_default_def write_level_def dump_def dump_level_def
      recorder_def strlen_def split: option.split)

subsection \<open>The category name\<close>

text \<open>
  Claim C7. \<open>name()\<close> returns the pointer given to the constructor, and
  LOG\_MODULE\_CATEGORY when none was given. It is a function of the logger alone: it
  takes no backend and no state.
\<close>

theorem name_returns_ctor_argument:
  "name (Logger_ctor h (Some p)) = p
   \<and> name (Logger_ctor h None) = LOG_MODULE_CATEGORY h"
  by (simp add: name_def Logger_ctor_def)

subsection \<open>Enablement\<close>

text \<open>
  Claim C1, as stated, fails: no emitting method asks for enablement, and each calls its
  backend function whatever the policy says. On the recording backend with a policy that
  enables Warn and Error only, \<open>isLevelEnabled\<close> answers false for Info on the logger
  "net", and \<open>info("x=%d", 5)\<close> on that logger still makes its call of
  \<open>log_message_v\<close>.
\<close>

theorem disabled_info_still_calls_backend:
  "fst (isLevelEnabled (recorder warn_and_above) net_logger LOG_LEVEL_INFO []) = False
   \<and> info (recorder warn_and_above) example_h net_logger (c_str ''x=%d'') [VInt 5] []
       = [Log_message_v LOG_LEVEL_INFO (c_str ''net'')
            (Some \<lparr> size_field = 16, flags = 0 \<rparr>) None (c_str ''x=%d'') [VInt 5]]"
  by (simp add: isLevelEnabled_def info_def log_va_def recorder_def warn_and_above_def
      net_logger_def Logger_ctor_def example_h_def)

text \<open>
  Claim C1, amended. For every logger, level and enablement policy, also one that answers
  false, each emitting method makes exactly one backend call and no call of
  \<open>log_enabled\<close>: \<open>trace\<close>, \<open>debug\<close>, \<open>info\<close>, \<open>warn\<close>, \<open>error\<close> and both
  \<open>log\<close> call \<open>log_message_v\<close>; both \<open>printf\<close> call \<open>log_printf_v\<close>; \<open>print\<close>
  (on a terminated string) and \<open>write\<close> (on a buffer that is not null) call
  \<open>log_write\<close>; \<open>dump\<close> (on a buffer that is not null) calls \<open>log_dump\<close>. The call
  carries the level, the category, and the format, arguments or buffer as they were given:
  the facade formats and encodes nothing, and leaves the gating to the backend.
\<close>

theorem emitting_methods_do_not_gate:
  "trace (recorder policy) h this fmt args s
     = s @ [Log_message_v LOG_LEVEL_TRACE (name_member this)
              (Some \<lparr> size_field = sizeof_LogAttributes h, flags = 0 \<rparr>) None fmt args]
   \<and> debug (recorder policy) h this fmt args s
     = s @ [Log_message_v (DEBUG_LEVEL h) (name_member this)
              (Some \<lparr> size_field = sizeof_LogAttributes h, flags = 0 \<rparr>) None fmt args]
   \<and> info (recorder policy) h this fmt args s
     = s @ [Log_message_v LOG_LEVEL_INFO (name_member this)
              (Some \<lparr> size_field = sizeof_LogAttributes h, flags = 0 \<rparr>) None fmt args]
   \<and> warn (recorder policy) h this fmt args s
     = s @ [Log_message_v LOG_LEVEL_WARN (name_member this)
              (Some \<lparr> size_field = sizeof_LogAttributes h, flags = 0 \<rparr>) None fmt args]
   \<and> error (recorder policy) h this fmt args s
     = s @ [Log_message_v LOG_LEVEL_ERROR (name_member this)
              (Some \<lparr> size_field = sizeof_LogAttributes h, flags = 0 \<rparr>) None fmt args]
   \<and> log (recorder policy) h this fmt args s
     = s @ [Log_message_v DEFAULT_LEVEL (name_member this)
              (Some \<lparr> size_field = sizeof_LogAttributes h, flags = 0 \<rparr>) None fmt args]
   \<and> log_level (recorder policy) h this level fmt args s
     = s @ [Log_message_v level (name_member this)
              (Some \<lparr> size_field = sizeof_LogAttributes h, flags = 0 \<rparr>) None fmt args]
   \<and> printf (recorder policy) this fmt args s
     = s @ [Log_printf_v DEFAULT_LEVEL (name_member this) None fmt args]
   \<and> printf_level (recorder policy) this level fmt args s
     = s @ [Log_printf_v level (name_member this) None fmt args]
   \<and> print (recorder policy) this (Some cs) s
     = map_option (\<lambda>n. s @ [Log_write DEFAULT_LEVEL (name_member this) (Some cs) n None])
         (strlen (Some cs))
   \<and> print_level (recorder policy) this level (Some cs) s
     = map_option (\<lambda>n. s @ [Log_write level (name_member this) (Some cs) n None])
         (strlen (Some cs))
   \<and> write_default (recorder policy) this (Some cs) sz s
     = s @ [Log_write DEFAULT_LEVEL (name_member this) (Some cs) sz None]
   \<and> write_level (recorder policy) this level (Some cs) sz s
     = s @ [Log_write level (name_member this) (Some cs) sz None]
   \<and> dump (recorder policy) this (Some bs) sz s
     = s @ [Log_dump DEFAULT_LEVEL (name_member this) (Some bs) sz 0 None]
   \<and> dump_level (recorder policy) this level (Some bs) sz s
     = s @ [Log_dump level (name_member this) (Some bs) sz 0 None]"
  by (simp add: trace_def debug_def info_def warn_def error_def log_def log_level_def
      log_va_def printf_def printf_level_def print_def print_level_def write_default_def
      write_level_def dump_def dump_level_def recorder_def split: option.split)

subsection \<open>The printf family\<close>

text \<open>
  Claim C6, as stated, fails: \<open>printf\<close> hands \<open>log_printf_v\<close> the null pointer where the
  attributes would go, and makes the call although the policy disables the level.
\<close>

theorem printf_passes_no_attributes:
  "warn_and_above LOG_LEVEL_INFO (name net_logger) = False
   \<and> printf_level (recorder warn_and_above) net_logger LOG_LEVEL_INFO (c_str ''x=%d'') [VInt 5] []
       = [Log_printf_v LOG_LEVEL_INFO (c_str ''net'') None (c_str ''x=%d'') [VInt 5]]
   \<and> map call_attributes
         (printf_level (recorder warn_and_above) net_logger LOG_LEVEL_INFO (c_str ''x=%d'')
            [VInt 5] []) = [None]"
  by (simp add: printf_level_def recorder_def warn_and_above_def net_logger_def
      Logger_ctor_def)

text \<open>
  Claim C6, amended. Each \<open>printf\<close> is one call of \<open>log_printf_v\<close>, on every backend,
  with the level (DEFAULT\_LEVEL when none is given), the category name, the null pointer
  in place of an attributes record, and the format and arguments as they were given; the
  facade asks for no enablement itself.
\<close>

theorem printf_forwards_to_log_printf_v:
  "printf_level b this level fmt args = log_printf_v b level (name this) None fmt args
   \<and> printf b this fmt args = log_printf_v b DEFAULT_LEVEL (name this) None fmt args
   \<and> printf_level (recorder policy) this level fmt args s
       = s @ [Log_printf_v level (name this) None fmt args]
   \<and> printf (recorder policy) this fmt args s
       = s @ [Log_printf_v DEFAULT_LEVEL (name this) None fmt args]"
  by (simp add: printf_level_def printf_def recorder_def name_def)

subsection \<open>Attributes of structured messages\<close>


subsection \<open>Printing a string\<close>

text \<open>
  Claim C10. For a string \<open>str\<close> that is not null and is terminated, with \<open>n\<close> characters
  before its first NUL, \<open>print(level, str)\<close> does what \<open>write(level, str, n)\<close> does, on
  every backend. For the null pointer \<open>print\<close> is undefined, the length being taken before
  \<open>write\<close> is entered, whereas \<open>write\<close> on the null pointer does nothing.
\<close>

theorem print_is_write_of_strlen:
  assumes "strlen (Some cs) = Some n"
  shows "print_level b this level (Some cs) s = Some (write_level b this level (Some cs) n s)
     \<and> n < length cs \<and> cs ! n = CHR 0x00 \<and> CHR 0x00 \<notin> set (take n cs)
     \<and> print_level b this level None s = None
     \<and> write_level b this level None n s = s"
proof -
  from assms have idx: "nul_index cs = Some n"
    by (simp add: strlen_def)
  have "print_level b this level (Some cs) s = Some (write_level b this level (Some cs) n s)"
    using assms by (simp add: print_level_def)
  moreover have "print_level b this level None s = None"
    by (simp add: print_level_def strlen_def)
  moreover have "write_level b this level None n s = s"
    by (simp add: write_level_def)
  ultimately show ?thesis
    using nul_index_Some [OF idx] by simp
qed

theorem print_is_write_of_strlen_witness:
  "strlen (c_str ''hi'') = Some 2
   \<and> print_level (recorder warn_and_above) net_logger LOG_LEVEL_WARN (c_str ''hi'') []
       = Some [Log_write LOG_LEVEL_WARN (c_str ''net'') (c_str ''hi'') 2 None]
   \<and> print_level (recorder warn_and_above) net_logger LOG_LEVEL_WARN None [] = None"
proof -
  have len: "strlen (Some (''hi'' @ [CHR 0x00])) = Some 2"
    by (simp add: strlen_def)
  from print_is_write_of_strlen [OF len, of "recorder warn_and_above" net_logger LOG_LEVEL_WARN "[]"]
  show ?thesis
    using len
    by (simp add: c_str_def write_level_def recorder_def net_logger_def Logger_ctor_def)
qed

end
